theory Spec2Isabelle
  imports Complex_Main
begin

section \<open>Python values shared by both modules\<close>

text \<open>
  The exceptions the modelled code can raise. \<open>ValueError\<close> is what \<open>list.index\<close> raises
  on a missing element, \<open>AttributeError\<close> is a method call on a value that has no such
  method (\<open>None.endswith\<close>, \<open>.get\<close> on a value that is not a dict). \<open>RerunException\<close> is
  the script-control signal with which the UI framework's \<open>st.rerun()\<close> stops the running
  script; it is not a subclass of \<open>Exception\<close>.
\<close>

datatype error = ValueError | AttributeError | RerunException

section \<open>config.py: the role hierarchy\<close>

definition get_role_hierarchy :: "string list" where
  "get_role_hierarchy = [''admin'', ''profesor'', ''estudiante'', ''invitado'']"

text \<open>\<open>list.index(x)\<close>: the position of the first occurrence, \<open>ValueError\<close> when there is none.\<close>

fun list_index :: "'a list \<Rightarrow> 'a \<Rightarrow> error + nat" where
  "list_index [] x = Inl ValueError"
| "list_index (y # ys) x =
     (if y = x then Inr 0
      else (case list_index ys x of Inl e \<Rightarrow> Inl e | Inr i \<Rightarrow> Inr (Suc i)))"

text \<open>
  \<open>can_manage_role\<close>: both lookups run inside \<open>try\<close>; \<open>except ValueError\<close> turns exactly that
  exception into \<open>False\<close>, anything else would propagate.
\<close>

definition can_manage_role_body :: "string \<Rightarrow> string \<Rightarrow> error + bool" where
  "can_manage_role_body manager_role target_role =
     (let hierarchy = get_role_hierarchy in
      case list_index hierarchy manager_role of
        Inl e \<Rightarrow> Inl e
      | Inr manager_level \<Rightarrow>
          (case list_index hierarchy target_role of
             Inl e \<Rightarrow> Inl e
           | Inr target_level \<Rightarrow> Inr (manager_level < target_level)))"

definition can_manage_role :: "string \<Rightarrow> string \<Rightarrow> error + bool" where
  "can_manage_role manager_role target_role =
     (case can_manage_role_body manager_role target_role of
        Inl ValueError \<Rightarrow> Inr False
      | Inl e \<Rightarrow> Inl e
      | Inr b \<Rightarrow> Inr b)"

section \<open>auth.py: data\<close>

text \<open>
  Time is the number of seconds since the epoch, as \<open>time.time()\<close> returns it;
  \<open>datetime.datetime.now()\<close> reads the same clock, and the difference of two readings
  (\<open>total_seconds()\<close>) is their difference in seconds. Every modelled method takes the
  clock reading of its call as an argument; the readings one call of \<open>login\<close> makes (in
  \<open>check_rate_limit\<close>, in \<open>record_login_attempt\<close> and for the session's two time stamps)
  are taken to be the same instant.
\<close>

type_synonym time = real

text \<open>
  The messages the methods return. Each constructor stands for one message template of the
  source, its arguments for the values formatted into it:
  \<^item> \<open>MsgOK\<close>: "OK";
  \<^item> \<open>MsgLocked n\<close>: "Cuenta bloqueada. Intente nuevamente en n segundos.";
  \<^item> \<open>MsgDomain\<close>: "Dominio de email no autorizado. Use su cuenta @utem.cl";
  \<^item> \<open>MsgNotRegistered\<close>: "Usuario no registrado en el sistema. Contacte al administrador.";
  \<^item> \<open>MsgInactive\<close>: "Usuario inactivo. Contacte al administrador.";
  \<^item> \<open>MsgWelcome n\<close>: "Bienvenido n";
  \<^item> \<open>MsgAuthError\<close>: "Error en el proceso de autenticacion" (the generic message of
    \<open>login\<close>'s exception handler);
  \<^item> \<open>MsgUserNotExist\<close>: "Usuario no existe";
  \<^item> \<open>MsgProtectedAdmin\<close>: "No se puede eliminar al administrador principal";
  \<^item> \<open>MsgUserDeleted\<close>: "Usuario eliminado exitosamente".
\<close>

datatype message =
    MsgOK
  | MsgLocked int
  | MsgDomain
  | MsgNotRegistered
  | MsgInactive
  | MsgWelcome string
  | MsgAuthError
  | MsgUserNotExist
  | MsgProtectedAdmin
  | MsgUserDeleted

text \<open>
  A user's entry of \<open>users.json\<close>: a dict with the keys below. A field is \<open>None\<close> when the
  key is absent, which is what \<open>dict.get\<close> answers then.
\<close>

record user_profile =
  nombre :: "string option"
  rol :: "string option"
  facultad :: "string option"
  departamento :: "string option"
  permisos :: "string list option"
  activo :: "bool option"
  fecha_creacion :: "string option"

text \<open>
  \<open>users.json\<close> is read with \<open>json.load\<close>, so the value stored under an email need not be
  a dict; \<open>NotDict\<close> stands for any other JSON value (\<open>.get\<close> on it raises
  \<open>AttributeError\<close>).
\<close>

datatype db_entry = Dict user_profile | NotDict

text \<open>A role of \<open>config.json\<close> (the display name is left out) and the configuration.\<close>

record role_def =
  nivel :: int
  permisos_base :: "string list"
  acceso_completo :: bool

record app_config =
  roles :: "string \<rightharpoonup> role_def"
  dominios_permitidos :: "string list option"
  timeout_sesion :: "real option"
  max_intentos_login :: "int option"
  duracion_bloqueo :: "real option"

text \<open>An entry of \<open>self.login_attempts\<close>.\<close>

record attempt_info =
  attempts :: int
  last_attempt :: time
  locked_until :: "time option"

text \<open>
  The state the methods read and write: the attributes of \<open>AuthenticationSystem\<close>, the
  users file as last written, and the five variables of \<open>st.session_state\<close>.
  \<open>login_attempts\<close> is keyed by the \<open>email\<close> argument, which is \<open>None\<close> by default.
  The log file is not part of the state.
\<close>

record auth_state =
  users_db :: "string \<rightharpoonup> db_entry"
  config :: app_config
  login_attempts :: "string option \<rightharpoonup> attempt_info"
  max_attempts :: int
  lockout_duration :: real
  users_file :: "(string \<rightharpoonup> db_entry) option"
  authenticated :: bool
  user :: "string option"
  user_data :: "user_profile option"
  login_time :: "time option"
  last_activity :: "time option"

section \<open>auth.py: Python primitives\<close>

text \<open>\<open>s.endswith(suffix)\<close>.\<close>

definition endswith :: "string \<Rightarrow> string \<Rightarrow> bool" where
  "endswith s suffix =
     (length suffix \<le> length s \<and> drop (length s - length suffix) s = suffix)"

text \<open>\<open>int(x)\<close> on a float: truncation towards zero.\<close>

definition py_int :: "real \<Rightarrow> int" where
  "py_int x = (if 0 \<le> x then \<lfloor>x\<rfloor> else \<lceil>x\<rceil>)"

text \<open>
  \<open>str.lower()\<close>, on the characters \<open>string\<close> has: the letters A to Z go to a to z, every
  other byte stays.
\<close>

definition lower_char :: "char \<Rightarrow> char" where
  "lower_char c =
     (let n = (of_char c :: nat) in if 65 \<le> n \<and> n \<le> 90 then char_of (n + 32) else c)"

definition py_lower :: "string \<Rightarrow> string" where
  "py_lower s = map lower_char s"

text \<open>Truth values: a dict is true when it has a key, a float when it is not zero,
  a string when it is not empty; \<open>None\<close> is false.\<close>

definition empty_profile :: user_profile where
  "empty_profile =
     \<lparr>nombre = None, rol = None, facultad = None, departamento = None, permisos = None,
      activo = None, fecha_creacion = None\<rparr>"

definition truthy_dict :: "user_profile option \<Rightarrow> bool" where
  "truthy_dict d = (case d of None \<Rightarrow> False | Some p \<Rightarrow> p \<noteq> empty_profile)"

definition truthy_time :: "time option \<Rightarrow> bool" where
  "truthy_time t = (case t of None \<Rightarrow> False | Some x \<Rightarrow> x \<noteq> 0)"

definition truthy_str :: "string option \<Rightarrow> bool" where
  "truthy_str x = (case x of None \<Rightarrow> False | Some v \<Rightarrow> v \<noteq> [])"

section \<open>auth.py: rate limiting\<close>

text \<open>The dict \<open>{'attempts': 0, 'last_attempt': current_time, 'locked_until': None}\<close>.\<close>

definition fresh_attempts :: "time \<Rightarrow> attempt_info" where
  "fresh_attempts current_time =
     \<lparr>attempts = 0, last_attempt = current_time, locked_until = None\<rparr>"

definition set_attempts :: "auth_state \<Rightarrow> string option \<Rightarrow> attempt_info \<Rightarrow> auth_state" where
  "set_attempts s email info = s\<lparr>login_attempts := (login_attempts s)(email \<mapsto> info)\<rparr>"

definition check_rate_limit ::
  "auth_state \<Rightarrow> string option \<Rightarrow> time \<Rightarrow> auth_state \<times> bool \<times> message" where
  "check_rate_limit s email current_time =
     (case login_attempts s email of
        Some attempts_info \<Rightarrow>
          if truthy_time (locked_until attempts_info) \<and>
             current_time < the (locked_until attempts_info)
          then (s, False,
                MsgLocked (py_int (the (locked_until attempts_info) - current_time)))
          else if truthy_time (locked_until attempts_info) \<and>
                  current_time \<ge> the (locked_until attempts_info)
          then (set_attempts s email (fresh_attempts current_time), True, MsgOK)
          else (s, True, MsgOK)
      | None \<Rightarrow> (set_attempts s email (fresh_attempts current_time), True, MsgOK))"

text \<open>
  \<open>record_login_attempt\<close>: \<open>info\<close> is the entry after the first \<open>if\<close>, which stores a
  fresh one when the email has none.
\<close>

definition record_login_attempt ::
  "auth_state \<Rightarrow> string option \<Rightarrow> bool \<Rightarrow> time \<Rightarrow> auth_state" where
  "record_login_attempt s email success current_time =
     (let info = (case login_attempts s email of
                    None \<Rightarrow> fresh_attempts current_time
                  | Some a \<Rightarrow> a)
      in if \<not> success then
           (let counted = info\<lparr>attempts := attempts info + 1, last_attempt := current_time\<rparr>
            in if attempts counted \<ge> max_attempts s
               then set_attempts s email
                      (counted\<lparr>locked_until := Some (current_time + lockout_duration s)\<rparr>)
               else set_attempts s email counted)
         else set_attempts s email (fresh_attempts current_time))"

section \<open>auth.py: domain validation\<close>

text \<open>
  The loop of \<open>validate_domain\<close> over the configured suffixes. \<open>email.endswith\<close> is
  reached once per suffix until one matches; on \<open>None\<close> it raises \<open>AttributeError\<close>.
\<close>

fun validate_domain_loop :: "string list \<Rightarrow> string option \<Rightarrow> error + bool" where
  "validate_domain_loop [] email = Inr False"
| "validate_domain_loop (domain # rest) email =
     (case email of
        None \<Rightarrow> Inl AttributeError
      | Some e \<Rightarrow> if endswith e domain then Inr True else validate_domain_loop rest email)"

definition allowed_domains :: "auth_state \<Rightarrow> string list" where
  "allowed_domains s = (case dominios_permitidos (config s) of None \<Rightarrow> [] | Some ds \<Rightarrow> ds)"

definition validate_domain :: "auth_state \<Rightarrow> string option \<Rightarrow> error + bool" where
  "validate_domain s email = validate_domain_loop (allowed_domains s) email"

section \<open>auth.py: login\<close>

text \<open>\<open>email in self.users_db\<close> and \<open>self.users_db[email]\<close>: the keys are strings.\<close>

definition lookup_user :: "auth_state \<Rightarrow> string option \<Rightarrow> db_entry option" where
  "lookup_user s email = (case email of None \<Rightarrow> None | Some e \<Rightarrow> users_db s e)"

text \<open>
  \<open>user_data.get('activo', False)\<close> as a truth value, and the name formatted into the
  greeting, \<open>user_data.get('nombre', email)\<close>.
\<close>

definition is_active :: "user_profile \<Rightarrow> bool" where
  "is_active profile = (case activo profile of None \<Rightarrow> False | Some b \<Rightarrow> b)"

definition display_name :: "user_profile \<Rightarrow> string option \<Rightarrow> string" where
  "display_name profile email =
     (case nombre profile of
        Some n \<Rightarrow> n
      | None \<Rightarrow> (case email of Some e \<Rightarrow> e | None \<Rightarrow> ''None''))"

text \<open>
  The body of \<open>login\<close>'s \<open>try\<close> block, with the state it leaves behind; \<open>Inl\<close> is an
  exception raised inside it. The argument \<open>google_auth\<close> is never read and is left out.
\<close>

definition login_body ::
  "auth_state \<Rightarrow> string option \<Rightarrow> time \<Rightarrow> auth_state \<times> (error + bool \<times> message)" where
  "login_body s email now =
     (case check_rate_limit s email now of
        (s1, allowed, message) \<Rightarrow>
          if \<not> allowed then (s1, Inr (False, message))
          else
            (case validate_domain s1 email of
               Inl e \<Rightarrow> (s1, Inl e)
             | Inr valid \<Rightarrow>
                 if \<not> valid
                 then (record_login_attempt s1 email False now, Inr (False, MsgDomain))
                 else
                   (case lookup_user s1 email of
                      None \<Rightarrow>
                        (record_login_attempt s1 email False now,
                         Inr (False, MsgNotRegistered))
                    | Some NotDict \<Rightarrow> (s1, Inl AttributeError)
                    | Some (Dict profile) \<Rightarrow>
                        if \<not> is_active profile
                        then (record_login_attempt s1 email False now,
                              Inr (False, MsgInactive))
                        else
                          (let s2 = s1\<lparr>authenticated := True, user := email,
                                        user_data := Some profile, login_time := Some now,
                                        last_activity := Some now\<rparr>
                           in (record_login_attempt s2 email True now,
                               Inr (True, MsgWelcome (display_name profile email)))))))"

text \<open>
  \<open>login\<close>: the handler \<open>except Exception\<close> answers the exceptions that are instances of
  \<open>Exception\<close>; the framework's rerun signal is not one and would pass through.
\<close>

fun is_Exception :: "error \<Rightarrow> bool" where
  "is_Exception ValueError = True"
| "is_Exception AttributeError = True"
| "is_Exception RerunException = False"

definition login ::
  "auth_state \<Rightarrow> string option \<Rightarrow> time \<Rightarrow> auth_state \<times> (error + bool \<times> message)" where
  "login s email now =
     (case login_body s email now of
        (s', Inl e) \<Rightarrow> if is_Exception e then (s', Inr (False, MsgAuthError)) else (s', Inl e)
      | (s', Inr r) \<Rightarrow> (s', Inr r))"

section \<open>auth.py: session\<close>

text \<open>
  \<open>logout\<close> clears the five session variables and then calls \<open>st.rerun()\<close>. That call
  belongs to the UI framework: inside a script run it stops the script by raising its
  rerun signal, outside of one it returns. Its outcome is the argument \<open>rerun\<close>:
  \<open>Inr ()\<close> when it returns, \<open>Inl RerunException\<close> when it stops the script.
\<close>

definition logout :: "error + unit \<Rightarrow> auth_state \<Rightarrow> auth_state \<times> (error + unit)" where
  "logout rerun s =
     (s\<lparr>authenticated := False, user := None, user_data := None, login_time := None,
        last_activity := None\<rparr>, rerun)"

definition session_timeout :: "auth_state \<Rightarrow> real" where
  "session_timeout s = (case timeout_sesion (config s) of None \<Rightarrow> 3600 | Some t \<Rightarrow> t)"

definition check_session_timeout ::
  "error + unit \<Rightarrow> auth_state \<Rightarrow> time \<Rightarrow> auth_state \<times> (error + bool)" where
  "check_session_timeout rerun s now =
     (case last_activity s of
        Some last_seen \<Rightarrow>
          if authenticated s then
            (let timeout = session_timeout s; elapsed = now - last_seen
             in if elapsed > timeout
                then (case logout rerun s of
                        (s', Inl e) \<Rightarrow> (s', Inl e)
                      | (s', Inr u) \<Rightarrow> (s', Inr False))
                else (s\<lparr>last_activity := Some now\<rparr>, Inr True))
          else (s, Inr True)
      | None \<Rightarrow> (s, Inr True))"

section \<open>auth.py: authorization\<close>

definition get_user_role :: "auth_state \<Rightarrow> string option" where
  "get_user_role s =
     (if authenticated s \<and> truthy_dict (user_data s)
      then (case user_data s of Some p \<Rightarrow> rol p | None \<Rightarrow> None)
      else None)"

definition get_user_permissions :: "auth_state \<Rightarrow> string list" where
  "get_user_permissions s =
     (if authenticated s \<and> truthy_dict (user_data s)
      then (case user_data s of
              Some p \<Rightarrow> (case permisos p of None \<Rightarrow> [] | Some ps \<Rightarrow> ps)
            | None \<Rightarrow> [])
      else [])"

definition is_authorized :: "auth_state \<Rightarrow> string \<Rightarrow> bool" where
  "is_authorized s permission =
     (if \<not> authenticated s then False
      else (let user_role = get_user_role s
            in if user_role = Some ''admin'' then True
               else (let user_permissions = get_user_permissions s
                     in permission \<in> set user_permissions)))"






section \<open>auth.py: deleting a user\<close>

text \<open>
  \<open>save_users\<close> writes the directory to the users file and answers a failed write by
  logging it; \<open>write_ok\<close> says whether the write goes through.
\<close>

definition save_users :: "bool \<Rightarrow> auth_state \<Rightarrow> auth_state" where
  "save_users write_ok s = (if write_ok then s\<lparr>users_file := Some (users_db s)\<rparr> else s)"

text \<open>
  \<open>delete_user\<close>. Nothing in its \<open>try\<close> block raises on a string, so the handler's
  branch is never taken.
\<close>

definition delete_user ::
  "bool \<Rightarrow> auth_state \<Rightarrow> string \<Rightarrow> auth_state \<times> bool \<times> message" where
  "delete_user write_ok s email =
     (if users_db s email = None then (s, False, MsgUserNotExist)
      else if email = ''admin@utem.cl'' then (s, False, MsgProtectedAdmin)
      else (save_users write_ok (s\<lparr>users_db := (users_db s)(email := None)\<rparr>),
            True, MsgUserDeleted))"

section \<open>The specification's permission check\<close>

text \<open>
  The permission check in the specification's words, to be compared with \<open>is_authorized\<close>:
  false without an authenticated session; true when the session's role has full access;
  otherwise true exactly when the permission is in the union of the role's base
  permissions and the profile's own permissions. A role the configuration does not
  define has no base permissions and no full access.
\<close>

definition session_role_def :: "auth_state \<Rightarrow> role_def option" where
  "session_role_def s =
     (case get_user_role s of None \<Rightarrow> None | Some r \<Rightarrow> roles (config s) r)"

definition spec_has_permission :: "auth_state \<Rightarrow> string \<Rightarrow> bool" where
  "spec_has_permission s permission =
     (if \<not> authenticated s then False
      else (case session_role_def s of
              None \<Rightarrow> permission \<in> set (get_user_permissions s)
            | Some d \<Rightarrow>
                if acceso_completo d then True
                else permission \<in> set (permisos_base d) \<union> set (get_user_permissions s)))"

section \<open>Sequences of logins and what a login checks\<close>






section \<open>Concrete data\<close>

text \<open>The configuration \<open>create_default_config\<close> writes.\<close>

definition default_config :: app_config where
  "default_config =
     \<lparr>roles =
        [''admin'' \<mapsto>
           \<lparr>nivel = 100,
            permisos_base = [''lectura'', ''escritura'', ''exportacion'', ''admin'',
                             ''gestion'', ''reportes''],
            acceso_completo = True\<rparr>,
         ''decano'' \<mapsto>
           \<lparr>nivel = 80,
            permisos_base = [''lectura'', ''exportacion'', ''reportes'', ''gestion''],
            acceso_completo = False\<rparr>,
         ''director_informatica'' \<mapsto>
           \<lparr>nivel = 70, permisos_base = [''lectura'', ''exportacion'', ''reportes''],
            acceso_completo = False\<rparr>,
         ''director_ciencias'' \<mapsto>
           \<lparr>nivel = 70, permisos_base = [''lectura'', ''exportacion'', ''reportes''],
            acceso_completo = False\<rparr>,
         ''profesor'' \<mapsto>
           \<lparr>nivel = 30, permisos_base = [''lectura''], acceso_completo = False\<rparr>],
      dominios_permitidos = Some [''@utem.cl'', ''@profesores.utem.cl'', ''@alumnos.utem.cl''],
      timeout_sesion = Some 3600,
      max_intentos_login = Some 5,
      duracion_bloqueo = Some 300\<rparr>"

text \<open>
  Three of the entries \<open>create_default_users\<close> writes (the administrator, a director
  and a dean), and a dean whose own permissions were cut down to reading.
\<close>

definition admin_profile :: user_profile where
  "admin_profile =
     \<lparr>nombre = Some ''Administrador Sistema'', rol = Some ''admin'',
      facultad = Some ''todas'', departamento = Some ''sistemas'',
      permisos = Some [''lectura'', ''escritura'', ''exportacion'', ''admin''],
      activo = Some True, fecha_creacion = Some ''2025-01-01T00:00:00''\<rparr>"

definition victor_profile :: user_profile where
  "victor_profile =
     \<lparr>nombre = Some ''Victor Escobar'', rol = Some ''director_informatica'',
      facultad = Some ''ingenieria'', departamento = Some ''informatica'',
      permisos = Some [''lectura'', ''exportacion'', ''reportes''],
      activo = Some True, fecha_creacion = Some ''2025-01-01T00:00:00''\<rparr>"

definition ana_profile :: user_profile where
  "ana_profile =
     \<lparr>nombre = Some ''Ana Torres'', rol = Some ''decano'',
      facultad = Some ''quimica'', departamento = Some ''quimica'',
      permisos = Some [''lectura'', ''exportacion'', ''reportes'', ''gestion''],
      activo = Some True, fecha_creacion = Some ''2025-01-01T00:00:00''\<rparr>"

definition sample_users :: "string \<rightharpoonup> db_entry" where
  "sample_users =
     [''admin@utem.cl'' \<mapsto> Dict admin_profile,
      ''victor.escobar@utem.cl'' \<mapsto> Dict victor_profile,
      ''ana.torres@utem.cl'' \<mapsto> Dict ana_profile]"

text \<open>The state \<open>__init__\<close> leaves: nobody logged in, no attempt recorded.\<close>

definition initial_state :: auth_state where
  "initial_state =
     \<lparr>users_db = sample_users, config = default_config, login_attempts = Map.empty,
      max_attempts = 5, lockout_duration = 300, users_file = Some sample_users,
      authenticated = False, user = None, user_data = None, login_time = None,
      last_activity = None\<rparr>"

text \<open>A session: the state after \<open>login\<close> has stored the profile at time \<open>t\<close>.\<close>

definition session_of :: "string \<Rightarrow> user_profile \<Rightarrow> time \<Rightarrow> auth_state" where
  "session_of email profile t =
     initial_state\<lparr>authenticated := True, user := Some email, user_data := Some profile,
                   login_time := Some t, last_activity := Some t\<rparr>"

text \<open>
  The dean's session after her own permissions were cut down to reading; the state after
  the users file could not be read, where \<open>load_users\<close> falls back to the empty
  directory; and a directory in which one email is stored with a value that is no dict.
\<close>

definition restricted_dean :: auth_state where
  "restricted_dean =
     session_of ''ana.torres@utem.cl'' (ana_profile\<lparr>permisos := Some [''lectura'']\<rparr>) 1000"

definition empty_directory_state :: auth_state where
  "empty_directory_state = initial_state\<lparr>users_db := Map.empty\<rparr>"

definition broken_entry_state :: auth_state where
  "broken_entry_state = initial_state\<lparr>users_db := sample_users(''roto@utem.cl'' \<mapsto> NotDict)\<rparr>"

text \<open>A state in which the director has failed three times before.\<close>

definition three_failures :: auth_state where
  "three_failures =
     initial_state\<lparr>login_attempts :=
       [Some ''victor.escobar@utem.cl'' \<mapsto>
          \<lparr>attempts = 3, last_attempt = 900, locked_until = None\<rparr>]\<rparr>"

text \<open>
  The director's session; the same session for a profile whose department is the empty
  string; a data frame of three courses; and one that has no department column.
\<close>

definition victor_session :: auth_state where
  "victor_session = session_of ''victor.escobar@utem.cl'' victor_profile 1000"






section \<open>Properties of the role hierarchy\<close>

lemma list_index_Inl: "list_index xs x = Inl e \<longleftrightarrow> e = ValueError \<and> x \<notin> set xs"
  by (induction xs) (auto split: sum.splits)

lemma list_index_Cons_neq:
  "y \<noteq> x \<Longrightarrow> list_index (y # ys) x = Inr i \<longleftrightarrow> (\<exists>k. i = Suc k \<and> list_index ys x = Inr k)"
  by (cases "list_index ys x") auto

lemma list_index_Inr:
  "list_index xs x = Inr i \<longleftrightarrow> i < length xs \<and> xs ! i = x \<and> x \<notin> set (take i xs)"
proof (induction xs arbitrary: i)
  case Nil
  then show ?case by simp
next
  case (Cons y ys)
  show ?case
  proof (cases "y = x")
    case True
    then show ?thesis by (cases i) simp_all
  next
    case False
    show ?thesis
    proof (cases i)
      case 0
      with False show ?thesis by (simp add: list_index_Cons_neq del: list_index.simps)
    next
      case (Suc k)
      with False show ?thesis by (simp add: list_index_Cons_neq Cons.IH del: list_index.simps)
    qed
  qed
qed

lemma list_index_mem: "list_index xs x = Inr i \<Longrightarrow> x \<in> set xs"
  by (auto simp: list_index_Inr)

lemma distinct_nth_take:
  assumes "distinct xs" "i < length xs"
  shows "xs ! i \<notin> set (take i xs)"
proof
  assume "xs ! i \<in> set (take i xs)"
  then obtain j where j: "j < length (take i xs)" "take i xs ! j = xs ! i"
    by (auto simp: in_set_conv_nth)
  then have "j < i" "xs ! j = xs ! i" by simp_all
  with assms show False by (simp add: nth_eq_iff_index_eq)
qed

lemma list_index_distinct:
  "distinct xs \<Longrightarrow> list_index xs x = Inr i \<longleftrightarrow> i < length xs \<and> xs ! i = x"
  using distinct_nth_take [of xs i] by (auto simp: list_index_Inr)

lemma distinct_hierarchy: "distinct get_role_hierarchy"
  by (simp add: get_role_hierarchy_def)

lemma can_manage_role_body_Inr:
  "can_manage_role_body m t = Inr b \<longleftrightarrow>
     (\<exists>i j. list_index get_role_hierarchy m = Inr i \<and> list_index get_role_hierarchy t = Inr j
        \<and> b = (i < j))"
  by (auto simp: can_manage_role_body_def Let_def split: sum.splits)

lemma can_manage_role_body_Inl:
  "can_manage_role_body m t = Inl e \<longleftrightarrow>
     e = ValueError \<and> (m \<notin> set get_role_hierarchy \<or> t \<notin> set get_role_hierarchy)"
  by (auto simp: can_manage_role_body_def Let_def list_index_Inl split: sum.splits
      dest: list_index_mem)

lemma can_manage_role_cases:
  "can_manage_role m t =
     (case list_index get_role_hierarchy m of
        Inl e \<Rightarrow> Inr False
      | Inr i \<Rightarrow> (case list_index get_role_hierarchy t of
                   Inl e \<Rightarrow> Inr False
                 | Inr j \<Rightarrow> Inr (i < j)))"
  by (auto simp: can_manage_role_def can_manage_role_body_def Let_def list_index_Inl
      split: sum.splits error.splits dest: list_index_mem)

text \<open>
  C10. \<open>can_manage_role manager target\<close> always returns a boolean, and it is true exactly
  when both roles are in the hierarchy list and the manager stands at a strictly smaller
  position than the target. Hence no role manages itself, and the answer is false as soon
  as one of the two roles is not in the list.
\<close>

theorem can_manage_role_iff_earlier:
  "can_manage_role m t =
     Inr (m \<in> set get_role_hierarchy \<and> t \<in> set get_role_hierarchy \<and>
          (\<exists>i j. i < j \<and> j < length get_role_hierarchy \<and>
                 get_role_hierarchy ! i = m \<and> get_role_hierarchy ! j = t))
   \<and> can_manage_role m m = Inr False
   \<and> (m \<notin> set get_role_hierarchy \<or> t \<notin> set get_role_hierarchy
        \<longrightarrow> can_manage_role m t = Inr False)"
proof -
  let ?H = get_role_hierarchy
  have idx: "\<And>x i. list_index ?H x = Inr i \<longleftrightarrow> i < length ?H \<and> ?H ! i = x"
    by (rule list_index_distinct [OF distinct_hierarchy])
  have nth_inj: "\<And>i j. i < length ?H \<Longrightarrow> j < length ?H \<Longrightarrow> ?H ! i = ?H ! j \<Longrightarrow> i = j"
    using distinct_hierarchy by (simp add: nth_eq_iff_index_eq)
  have main: "can_manage_role a b =
     Inr (a \<in> set ?H \<and> b \<in> set ?H \<and>
          (\<exists>i j. i < j \<and> j < length ?H \<and> ?H ! i = a \<and> ?H ! j = b))" for a b
  proof (cases "list_index ?H a")
    case (Inl e)
    then have "a \<notin> set ?H" by (simp add: list_index_Inl)
    with Inl show ?thesis by (simp add: can_manage_role_cases)
  next
    case ia: (Inr i)
    then have i: "i < length ?H" "?H ! i = a" by (simp_all add: idx)
    show ?thesis
    proof (cases "list_index ?H b")
      case (Inl e)
      then have "b \<notin> set ?H" by (simp add: list_index_Inl)
      with ia Inl show ?thesis by (simp add: can_manage_role_cases)
    next
      case jb: (Inr j)
      then have j: "j < length ?H" "?H ! j = b" by (simp_all add: idx)
      have mem: "a \<in> set ?H" "b \<in> set ?H"
        using ia jb by (auto dest: list_index_mem)
      have "(\<exists>i' j'. i' < j' \<and> j' < length ?H \<and> ?H ! i' = a \<and> ?H ! j' = b) \<longleftrightarrow> i < j"
      proof
        assume "\<exists>i' j'. i' < j' \<and> j' < length ?H \<and> ?H ! i' = a \<and> ?H ! j' = b"
        then obtain i' j' where h: "i' < j'" "j' < length ?H" "?H ! i' = a" "?H ! j' = b"
          by blast
        have "i' = i" using h i by (intro nth_inj) simp_all
        moreover have "j' = j" using h j by (intro nth_inj) simp_all
        ultimately show "i < j" using h by simp
      next
        assume "i < j"
        with i j show "\<exists>i' j'. i' < j' \<and> j' < length ?H \<and> ?H ! i' = a \<and> ?H ! j' = b"
          by blast
      qed
      with ia jb mem show ?thesis by (simp add: can_manage_role_cases)
    qed
  qed
  have irrefl: "can_manage_role m m = Inr False"
    by (simp add: can_manage_role_cases split: sum.splits)
  have outside: "m \<notin> set ?H \<or> t \<notin> set ?H \<longrightarrow> can_manage_role m t = Inr False"
    by (auto simp: main)
  from main [of m t] irrefl outside show ?thesis by blast
qed

theorem can_manage_role_iff_earlier_witness:
  "can_manage_role ''admin'' ''estudiante'' = Inr True
   \<and> can_manage_role ''estudiante'' ''admin'' = Inr False
   \<and> can_manage_role ''profesor'' ''profesor'' = Inr False
   \<and> ''decano'' \<notin> set get_role_hierarchy
   \<and> can_manage_role ''decano'' ''invitado'' = Inr False"
proof -
  have mem: "''decano'' \<notin> set get_role_hierarchy"
    by (simp add: get_role_hierarchy_def)
  have a: "can_manage_role ''decano'' ''invitado'' = Inr False"
    using can_manage_role_iff_earlier [of "''decano''" "''invitado''"] mem by blast
  have b: "can_manage_role ''profesor'' ''profesor'' = Inr False"
    using can_manage_role_iff_earlier [of "''profesor''" "''profesor''"] by blast
  have c: "can_manage_role ''admin'' ''estudiante'' = Inr True"
    by (simp add: can_manage_role_cases get_role_hierarchy_def)
  have d: "can_manage_role ''estudiante'' ''admin'' = Inr False"
    by (simp add: can_manage_role_cases get_role_hierarchy_def)
  from a b c d mem show ?thesis by blast
qed

section \<open>Frame lemmas\<close>

lemma set_attempts_simps [simp]:
  "login_attempts (set_attempts s email info) = (login_attempts s)(email \<mapsto> info)"
  "users_db (set_attempts s email info) = users_db s"
  "config (set_attempts s email info) = config s"
  "max_attempts (set_attempts s email info) = max_attempts s"
  "lockout_duration (set_attempts s email info) = lockout_duration s"
  "users_file (set_attempts s email info) = users_file s"
  "authenticated (set_attempts s email info) = authenticated s"
  "user (set_attempts s email info) = user s"
  "user_data (set_attempts s email info) = user_data s"
  "login_time (set_attempts s email info) = login_time s"
  "last_activity (set_attempts s email info) = last_activity s"
  by (simp_all add: set_attempts_def)

lemma check_rate_limit_frame:
  "users_db (fst (check_rate_limit s email now)) = users_db s"
  "config (fst (check_rate_limit s email now)) = config s"
  "max_attempts (fst (check_rate_limit s email now)) = max_attempts s"
  "lockout_duration (fst (check_rate_limit s email now)) = lockout_duration s"
  "users_file (fst (check_rate_limit s email now)) = users_file s"
  by (simp_all add: check_rate_limit_def split: option.splits)

lemma record_login_attempt_frame:
  "users_db (record_login_attempt s email ok now) = users_db s"
  "config (record_login_attempt s email ok now) = config s"
  "max_attempts (record_login_attempt s email ok now) = max_attempts s"
  "lockout_duration (record_login_attempt s email ok now) = lockout_duration s"
  "users_file (record_login_attempt s email ok now) = users_file s"
  by (simp_all add: record_login_attempt_def Let_def split: option.splits)

lemma record_success:
  "login_attempts (record_login_attempt s email True now) email = Some (fresh_attempts now)"
  by (simp add: record_login_attempt_def Let_def)

lemma endswith_iff: "endswith s d \<longleftrightarrow> (\<exists>p. s = p @ d)"
proof
  assume "endswith s d"
  then have "s = take (length s - length d) s @ d"
    by (metis endswith_def append_take_drop_id)
  then show "\<exists>p. s = p @ d" ..
next
  assume "\<exists>p. s = p @ d"
  then show "endswith s d" by (auto simp: endswith_def)
qed

lemma validate_domain_loop_Some:
  "validate_domain_loop ds (Some e) = Inr (\<exists>d\<in>set ds. endswith e d)"
  by (induction ds) simp_all

lemma validate_domain_loop_Inl:
  "validate_domain_loop ds email = Inl e \<Longrightarrow> e = AttributeError \<and> email = None \<and> ds \<noteq> []"
  by (induction ds) (auto split: option.splits if_splits)

lemma login_body_Inl:
  "snd (login_body s email now) = Inl e \<Longrightarrow> e = AttributeError"
  by (auto simp: login_body_def validate_domain_def Let_def
      split: prod.splits if_splits sum.splits option.splits db_entry.splits
      dest: validate_domain_loop_Inl)

lemma login_users_db: "users_db (fst (login s email now)) = users_db s"
proof -
  obtain s1 a m where c: "check_rate_limit s email now = (s1, a, m)"
    by (cases "check_rate_limit s email now") auto
  then have "users_db s1 = users_db s"
    using check_rate_limit_frame(1) [of s email now] by simp
  then show ?thesis
    by (simp add: login_def login_body_def c record_login_attempt_frame Let_def
        split: sum.splits option.splits db_entry.splits)
qed


section \<open>Evaluating the model on concrete data\<close>

lemmas eval_defs = login_def login_body_def check_rate_limit_def initial_state_def validate_domain_def allowed_domains_def default_config_def endswith_def lookup_user_def sample_users_def is_active_def admin_profile_def victor_profile_def ana_profile_def record_login_attempt_def set_attempts_def fresh_attempts_def display_name_def Let_def session_of_def truthy_time_def truthy_dict_def truthy_str_def empty_profile_def get_user_role_def get_user_permissions_def is_authorized_def

lemma get_user_role_config: "get_user_role (s\<lparr>config := c\<rparr>) = get_user_role s"
  by (simp add: get_user_role_def)

lemma get_user_permissions_config:
  "get_user_permissions (s\<lparr>config := c\<rparr>) = get_user_permissions s"
  by (simp add: get_user_permissions_def)


section \<open>Authorization\<close>

text \<open>
  C2. In an authenticated session whose role is \<open>admin\<close>, \<open>is_authorized\<close> is true for
  every permission string, whether or not any role lists it.
\<close>

theorem is_authorized_admin:
  "authenticated s \<and> get_user_role s = Some ''admin'' \<longrightarrow> (\<forall>permission. is_authorized s permission)"
  by (simp add: is_authorized_def)

theorem is_authorized_admin_witness:
  "authenticated (fst (login initial_state (Some ''admin@utem.cl'') 1000))
   \<and> get_user_role (fst (login initial_state (Some ''admin@utem.cl'') 1000)) = Some ''admin''
   \<and> is_authorized (fst (login initial_state (Some ''admin@utem.cl'') 1000)) ''borrar_todo''
   \<and> \<not> (\<exists>r d. roles default_config r = Some d \<and> ''borrar_todo'' \<in> set (permisos_base d))"
proof -
  let ?s = "fst (login initial_state (Some ''admin@utem.cl'') 1000)"
  have a: "authenticated ?s" by (simp add: eval_defs)
  have r: "get_user_role ?s = Some ''admin''" by (simp add: eval_defs)
  have p: "is_authorized ?s ''borrar_todo''"
    using is_authorized_admin [of ?s] a r by blast
  have n: "\<not> (\<exists>r d. roles default_config r = Some d \<and> ''borrar_todo'' \<in> set (permisos_base d))"
    by (auto simp: default_config_def split: if_splits)
  from a r p n show ?thesis by blast
qed


text \<open>
  C1, as the specification states it, fails. The dean of \<open>restricted_dean\<close> is
  authenticated, her role has no full access and lists \<open>gestion\<close> among its base
  permissions, so the union of base permissions and own permissions holds \<open>gestion\<close>;
  yet \<open>is_authorized\<close> answers false, because her own list does not hold it.
\<close>

theorem spec_union_counterexample:
  "authenticated restricted_dean
   \<and> get_user_role restricted_dean = Some ''decano''
   \<and> map_option acceso_completo (session_role_def restricted_dean) = Some False
   \<and> ''gestion'' \<in> set (permisos_base (the (session_role_def restricted_dean)))
                  \<union> set (get_user_permissions restricted_dean)
   \<and> spec_has_permission restricted_dean ''gestion''
   \<and> \<not> is_authorized restricted_dean ''gestion''"
proof -
  have 1: "authenticated restricted_dean" by (simp add: restricted_dean_def session_of_def)
  have 2: "get_user_role restricted_dean = Some ''decano''"
    by (simp add: restricted_dean_def eval_defs)
  have 3: "session_role_def restricted_dean =
      Some \<lparr>nivel = 80, permisos_base = [''lectura'', ''exportacion'', ''reportes'', ''gestion''],
            acceso_completo = False\<rparr>"
    by (simp add: session_role_def_def 2) (simp add: restricted_dean_def eval_defs)
  have 4: "get_user_permissions restricted_dean = [''lectura'']"
    by (simp add: restricted_dean_def eval_defs)
  have 5: "spec_has_permission restricted_dean ''gestion''"
    by (simp add: spec_has_permission_def 1 3)
  have 6: "\<not> is_authorized restricted_dean ''gestion''"
    by (simp add: is_authorized_def 1 2 4)
  from 1 2 3 4 5 6 show ?thesis by simp
qed


text \<open>
  C1, amended. In an authenticated session whose role is not \<open>admin\<close>, \<open>is_authorized\<close>
  is true exactly when the session holds a profile whose own \<open>permisos\<close> list contains the
  permission. The configuration, and with it the role's base permissions, plays no part.
\<close>

theorem is_authorized_own_permissions:
  "authenticated s \<and> get_user_role s \<noteq> Some ''admin'' \<longrightarrow>
     is_authorized s permission =
       (\<exists>profile ps. user_data s = Some profile \<and> permisos profile = Some ps \<and>
                      permission \<in> set ps)
     \<and> is_authorized (s\<lparr>config := c\<rparr>) permission = is_authorized s permission"
proof (intro impI conjI)
  assume h: "authenticated s \<and> get_user_role s \<noteq> Some ''admin''"
  then have ia: "is_authorized s permission = (permission \<in> set (get_user_permissions s))"
    by (simp add: is_authorized_def)
  show "is_authorized s permission =
       (\<exists>profile ps. user_data s = Some profile \<and> permisos profile = Some ps \<and>
                      permission \<in> set ps)"
  proof (cases "user_data s")
    case None
    have "get_user_permissions s = []"
      by (simp add: get_user_permissions_def None truthy_dict_def)
    then show ?thesis using None by (simp add: ia)
  next
    case (Some profile)
    show ?thesis
    proof (cases "profile = empty_profile")
      case True
      then have p: "permisos profile = None" by (simp add: empty_profile_def)
      have "get_user_permissions s = []"
        using Some True by (simp add: get_user_permissions_def truthy_dict_def)
      then show ?thesis using Some p by (simp add: ia)
    next
      case False
      have "get_user_permissions s = (case permisos profile of None \<Rightarrow> [] | Some ps \<Rightarrow> ps)"
        using Some False h by (simp add: get_user_permissions_def truthy_dict_def)
      then show ?thesis using Some by (cases "permisos profile") (simp_all add: ia)
    qed
  qed
  show "is_authorized (s\<lparr>config := c\<rparr>) permission = is_authorized s permission"
    by (simp add: is_authorized_def get_user_role_config get_user_permissions_config)
qed

theorem is_authorized_own_permissions_witness:
  "authenticated restricted_dean \<and> get_user_role restricted_dean \<noteq> Some ''admin''
   \<and> is_authorized restricted_dean ''lectura''
   \<and> \<not> is_authorized restricted_dean ''gestion''
   \<and> is_authorized (restricted_dean\<lparr>config := default_config\<lparr>roles := Map.empty\<rparr>\<rparr>) ''lectura''"
proof -
  have a: "authenticated restricted_dean \<and> get_user_role restricted_dean \<noteq> Some ''admin''"
    by (simp add: restricted_dean_def eval_defs)
  have u: "user_data restricted_dean = Some (ana_profile\<lparr>permisos := Some [''lectura'']\<rparr>)"
    by (simp add: restricted_dean_def eval_defs)
  note t1 = is_authorized_own_permissions [of restricted_dean "''lectura''" "default_config\<lparr>roles := Map.empty\<rparr>"]
  note t2 = is_authorized_own_permissions [of restricted_dean "''gestion''" default_config]
  have l: "is_authorized restricted_dean ''lectura''"
    using t1 a u by simp
  have g: "\<not> is_authorized restricted_dean ''gestion''"
    using t2 a u by simp
  have c: "is_authorized (restricted_dean\<lparr>config := default_config\<lparr>roles := Map.empty\<rparr>\<rparr>) ''lectura''"
    using t1 a l by blast
  from a l g c show ?thesis by blast
qed


section \<open>Deleting the administrator\<close>

text \<open>
  C4, as the specification states it, fails. In the empty directory, deleting
  \<open>admin@utem.cl\<close> answers "Usuario no existe", not the protection message.
\<close>

theorem delete_admin_absent_counterexample:
  "delete_user True empty_directory_state ''admin@utem.cl''
     = (empty_directory_state, False, MsgUserNotExist)
   \<and> snd (delete_user True empty_directory_state ''admin@utem.cl'') \<noteq> (False, MsgProtectedAdmin)"
  by (simp add: delete_user_def empty_directory_state_def)


text \<open>
  C4, amended. When the directory has an entry for \<open>admin@utem.cl\<close>, deleting it is
  refused with the protection message; when it has none, the answer is "Usuario no
  existe". In both cases the whole state, the directory included, stays as it was.
\<close>

theorem delete_admin_protected:
  "(users_db s ''admin@utem.cl'' \<noteq> None \<longrightarrow>
      delete_user write_ok s ''admin@utem.cl'' = (s, False, MsgProtectedAdmin))
   \<and> (users_db s ''admin@utem.cl'' = None \<longrightarrow>
      delete_user write_ok s ''admin@utem.cl'' = (s, False, MsgUserNotExist))"
  by (simp add: delete_user_def)

theorem delete_admin_protected_witness:
  "users_db initial_state ''admin@utem.cl'' \<noteq> None
   \<and> delete_user True initial_state ''admin@utem.cl'' = (initial_state, False, MsgProtectedAdmin)
   \<and> users_db empty_directory_state ''admin@utem.cl'' = None
   \<and> delete_user True empty_directory_state ''admin@utem.cl''
        = (empty_directory_state, False, MsgUserNotExist)"
proof -
  have p: "users_db initial_state ''admin@utem.cl'' \<noteq> None"
    by (simp add: initial_state_def sample_users_def)
  have q: "users_db empty_directory_state ''admin@utem.cl'' = None"
    by (simp add: empty_directory_state_def)
  from p q delete_admin_protected [of initial_state True]
    delete_admin_protected [of empty_directory_state True]
  show ?thesis by blast
qed


section \<open>Login never raises\<close>

text \<open>
  C5. For every state, every \<open>email\<close> argument and every time, \<open>login\<close> returns a pair
  of a success flag and a message; it never passes an exception on. When the body of its
  \<open>try\<close> block raises, the pair is a rejection with the generic message.
\<close>

theorem login_never_raises:
  "\<exists>s' ok msg. login s email now = (s', Inr (ok, msg)) \<and>
     ((\<exists>e. snd (login_body s email now) = Inl e) \<longrightarrow> \<not> ok \<and> msg = MsgAuthError)"
proof (cases "login_body s email now")
  case (Pair s' r)
  show ?thesis
  proof (cases r)
    case (Inl e)
    with Pair have "e = AttributeError" using login_body_Inl [of s email now e] by simp
    with Pair Inl show ?thesis by (auto simp: login_def)
  next
    case (Inr res)
    with Pair show ?thesis by (cases res) (simp add: login_def)
  qed
qed

theorem login_never_raises_witness:
  "snd (login_body initial_state None 1000) = Inl AttributeError
   \<and> snd (login initial_state None 1000) = Inr (False, MsgAuthError)
   \<and> snd (login_body broken_entry_state (Some ''roto@utem.cl'') 1000) = Inl AttributeError
   \<and> snd (login broken_entry_state (Some ''roto@utem.cl'') 1000) = Inr (False, MsgAuthError)"
proof -
  have b1: "snd (login_body initial_state None 1000) = Inl AttributeError"
    by (simp add: eval_defs)
  have b2: "snd (login_body broken_entry_state (Some ''roto@utem.cl'') 1000) = Inl AttributeError"
    by (simp add: broken_entry_state_def eval_defs)
  have l1: "snd (login initial_state None 1000) = Inr (False, MsgAuthError)"
    using login_never_raises [of initial_state None 1000] b1 by auto
  have l2: "snd (login broken_entry_state (Some ''roto@utem.cl'') 1000) = Inr (False, MsgAuthError)"
    using login_never_raises [of broken_entry_state "Some ''roto@utem.cl''" 1000] b2 by auto
  from b1 b2 l1 l2 show ?thesis by blast
qed

section \<open>A successful login resets the attempt record\<close>

lemma login_success_state:
  assumes "login s email now = (s', Inr (True, msg))"
  shows "login_attempts s' email = Some (fresh_attempts now)"
proof -
  obtain s1 a m where c: "check_rate_limit s email now = (s1, a, m)"
    by (cases "check_rate_limit s email now") auto
  from assms show ?thesis
    by (auto simp: login_def login_body_def c record_success Let_def
        split: if_splits sum.splits option.splits db_entry.splits)
qed


text \<open>
  C9. Whatever the attempt record of an email was, \<open>record_login_attempt\<close> with
  \<open>success = True\<close> replaces it by one with zero failed attempts and no lock; and
  whenever \<open>login\<close> succeeds, the state it leaves holds that record for the email.
\<close>

theorem successful_login_resets_attempts:
  "login_attempts (record_login_attempt s email True now) email
     = Some \<lparr>attempts = 0, last_attempt = now, locked_until = None\<rparr>
   \<and> (\<forall>s' msg. login s email now = (s', Inr (True, msg)) \<longrightarrow>
        login_attempts s' email = Some \<lparr>attempts = 0, last_attempt = now, locked_until = None\<rparr>)"
  using login_success_state [of s email now]
  by (simp add: record_success fresh_attempts_def [symmetric])


theorem successful_login_resets_attempts_witness:
  "login_attempts three_failures (Some ''victor.escobar@utem.cl'')
     = Some \<lparr>attempts = 3, last_attempt = 900, locked_until = None\<rparr>
   \<and> snd (login three_failures (Some ''victor.escobar@utem.cl'') 1000)
       = Inr (True, MsgWelcome ''Victor Escobar'')
   \<and> login_attempts (fst (login three_failures (Some ''victor.escobar@utem.cl'') 1000))
         (Some ''victor.escobar@utem.cl'')
       = Some \<lparr>attempts = 0, last_attempt = 1000, locked_until = None\<rparr>"
proof -
  let ?e = "Some ''victor.escobar@utem.cl''"
  have a: "login_attempts three_failures ?e
            = Some \<lparr>attempts = 3, last_attempt = 900, locked_until = None\<rparr>"
    by (simp add: three_failures_def)
  have b: "snd (login three_failures ?e 1000) = Inr (True, MsgWelcome ''Victor Escobar'')"
    by (simp add: three_failures_def eval_defs)
  then have "login three_failures ?e 1000
               = (fst (login three_failures ?e 1000), Inr (True, MsgWelcome ''Victor Escobar''))"
    by (metis prod.collapse)
  with successful_login_resets_attempts [of three_failures ?e 1000]
  have c: "login_attempts (fst (login three_failures ?e 1000)) ?e
            = Some \<lparr>attempts = 0, last_attempt = 1000, locked_until = None\<rparr>"
    by blast
  from a b c show ?thesis by blast
qed


section \<open>Domain validation\<close>

text \<open>
  C6. When the identity ends with none of the configured suffixes, \<open>validate_domain\<close>
  returns false; and when the rate limiter lets the attempt through, \<open>login\<close> rejects it
  with the domain message and leaves the user directory as it was.
\<close>

theorem foreign_domain_rejected:
  "(\<forall>d\<in>set (allowed_domains s). \<forall>p. e \<noteq> p @ d) \<longrightarrow>
     validate_domain s (Some e) = Inr False
     \<and> (fst (snd (check_rate_limit s (Some e) now)) \<longrightarrow>
          snd (login s (Some e) now) = Inr (False, MsgDomain)
          \<and> users_db (fst (login s (Some e) now)) = users_db s)"
proof (intro impI conjI)
  assume h: "\<forall>d\<in>set (allowed_domains s). \<forall>p. e \<noteq> p @ d"
  then have no: "\<not> (\<exists>d\<in>set (allowed_domains s). endswith e d)"
    by (auto simp: endswith_iff)
  then show v: "validate_domain s (Some e) = Inr False"
    by (simp add: validate_domain_def validate_domain_loop_Some)
  assume ok: "fst (snd (check_rate_limit s (Some e) now))"
  obtain s1 a m where c: "check_rate_limit s (Some e) now = (s1, a, m)"
    by (cases "check_rate_limit s (Some e) now") auto
  with ok have a: "a" by simp
  have "config s1 = config s"
    using check_rate_limit_frame(2) [of s "Some e" now] c by simp
  then have "validate_domain s1 (Some e) = Inr False"
    using v by (simp add: validate_domain_def allowed_domains_def)
  then show "snd (login s (Some e) now) = Inr (False, MsgDomain)"
    using a by (simp add: login_def login_body_def c)
  show "users_db (fst (login s (Some e) now)) = users_db s"
    by (rule login_users_db)
qed

theorem foreign_domain_rejected_witness:
  "\<not> (\<exists>d p. d \<in> set (allowed_domains initial_state) \<and> ''intruso@gmail.com'' = p @ d)
   \<and> validate_domain initial_state (Some ''intruso@gmail.com'') = Inr False
   \<and> fst (snd (check_rate_limit initial_state (Some ''intruso@gmail.com'') 1000))
   \<and> snd (login initial_state (Some ''intruso@gmail.com'') 1000) = Inr (False, MsgDomain)
   \<and> users_db (fst (login initial_state (Some ''intruso@gmail.com'') 1000)) = sample_users"
proof -
  let ?e = "''intruso@gmail.com''"
  have ds: "allowed_domains initial_state = [''@utem.cl'', ''@profesores.utem.cl'', ''@alumnos.utem.cl'']"
    by (simp add: allowed_domains_def initial_state_def default_config_def)
  have ne: "\<not> endswith ?e d" if "d \<in> set (allowed_domains initial_state)" for d
    using that by (auto simp: ds endswith_def)
  then have h: "\<forall>d\<in>set (allowed_domains initial_state). \<forall>p. ?e \<noteq> p @ d"
    by (auto simp: endswith_iff)
  have r: "fst (snd (check_rate_limit initial_state (Some ?e) 1000))"
    by (simp add: check_rate_limit_def initial_state_def)
  have u: "users_db initial_state = sample_users" by (simp add: initial_state_def)
  from foreign_domain_rejected [of initial_state ?e 1000] h r u show ?thesis
    by auto
qed

section \<open>Session timeout\<close>

text \<open>
  What \<open>check_session_timeout\<close> does with an authenticated session that has a time of
  last activity: past the timeout it clears the session and hands on what \<open>st.rerun()\<close>
  did, so it returns false only when that call returns; otherwise it stores the current
  time and returns true.
\<close>

lemma check_session_timeout_expired:
  assumes "authenticated s" "last_activity s = Some t" "now - t > session_timeout s"
  shows "check_session_timeout rerun s now =
           (s\<lparr>authenticated := False, user := None, user_data := None, login_time := None,
               last_activity := None\<rparr>,
            case rerun of Inl e \<Rightarrow> Inl e | Inr u \<Rightarrow> Inr False)"
  using assms by (simp add: check_session_timeout_def logout_def split: sum.splits)

lemma check_session_timeout_active:
  assumes "authenticated s" "last_activity s = Some t" "now - t \<le> session_timeout s"
  shows "check_session_timeout rerun s now = (s\<lparr>last_activity := Some now\<rparr>, Inr True)"
  using assms by (simp add: check_session_timeout_def)

text \<open>
  C7, evaluated. The timeout is 3600 seconds and the session was last active 3601 seconds
  before the check. Inside a script run, where \<open>st.rerun()\<close> stops the script, the session
  is cleared but the check does not return false: the rerun signal leaves it. Where
  \<open>st.rerun()\<close> returns, the check returns false. One second before the timeout, at 3599
  seconds, the time of last activity is refreshed and the check returns true.
\<close>

theorem expired_session_rerun:
  "session_timeout victor_session = 3600
   \<and> last_activity victor_session = Some (4601 - (3600 + 1))
   \<and> check_session_timeout (Inl RerunException) victor_session 4601
       = (initial_state, Inl RerunException)
   \<and> snd (check_session_timeout (Inl RerunException) victor_session 4601) \<noteq> Inr False
   \<and> check_session_timeout (Inr ()) victor_session 4601 = (initial_state, Inr False)
   \<and> check_session_timeout (Inl RerunException) victor_session 4599
       = (victor_session\<lparr>last_activity := Some 4599\<rparr>, Inr True)"
  by (simp add: victor_session_def session_of_def initial_state_def session_timeout_def
      default_config_def check_session_timeout_def logout_def)

section \<open>Filtering data by department\<close>



lemma py_lower_Nil_iff: "py_lower v = [] \<longleftrightarrow> v = []"
  by (simp add: py_lower_def)




section \<open>Lockout after repeated failures\<close>















end
